theory Spec2Isabelle
  imports Main "HOL-Library.Word"
begin

unbundle bit_operations_syntax

section \<open>Reply encoding of the FUSE connection (ops.go)\<close>

text \<open>
  The development embeds \<^verbatim>\<open>kernelResponse\<close> and \<^verbatim>\<open>kernelResponseForOp\<close> of
  \<^verbatim>\<open>ops.go\<close>. A reply is a Go byte slice; the structs of the kernel ABI are overlaid on
  regions of that slice through typed pointers, so the model keeps the slice as a list of
  bytes and turns every field assignment into a store at the field's offset.
\<close>

subsection \<open>Bytes, little-endian fields and stores\<close>

type_synonym byte = "8 word"

text \<open>
  Modelled from the spec: the layout of integer fields (section 4.2, "Integer fields are
  little-endian host layout"); the struct declarations of package fusekernel are not under
  src/.
\<close>

definition enc32 :: "32 word \<Rightarrow> byte list" where
  "enc32 w = [ucast w, ucast (drop_bit 8 w), ucast (drop_bit 16 w), ucast (drop_bit 24 w)]"

definition enc64 :: "64 word \<Rightarrow> byte list" where
  "enc64 w = [ucast w, ucast (drop_bit 8 w), ucast (drop_bit 16 w), ucast (drop_bit 24 w),
              ucast (drop_bit 32 w), ucast (drop_bit 40 w), ucast (drop_bit 48 w),
              ucast (drop_bit 56 w)]"

definition dec32 :: "byte list \<Rightarrow> 32 word" where
  "dec32 bs = foldr (\<lambda>b acc. ucast b OR push_bit 8 acc) bs 0"

definition dec64 :: "byte list \<Rightarrow> 64 word" where
  "dec64 bs = foldr (\<lambda>b acc. ucast b OR push_bit 8 acc) bs 0"

text \<open>
  A store through a pointer at offset \<open>off\<close> of a slice. It never changes the length of the
  slice: bytes that would land past its end are not part of it.
\<close>

definition store :: "nat \<Rightarrow> byte list \<Rightarrow> byte list \<Rightarrow> byte list" where
  "store off bs mem = take (length mem) (take off mem @ bs @ drop (off + length bs) mem)"

definition load :: "nat \<Rightarrow> nat \<Rightarrow> byte list \<Rightarrow> byte list" where
  "load off n mem = take n (drop off mem)"

subsection \<open>Package buffer: OutMessage\<close>

datatype panic =
    UnknownOp          \<comment> \<open>\<^verbatim>\<open>panic(fmt.Sprintf("Unknown op: %#v", op))\<close>\<close>
  | SliceOutOfRange    \<comment> \<open>Go's run-time panic on reslicing past the capacity\<close>

text \<open>
  Modelled from the spec: \<^verbatim>\<open>buffer.OutMessage\<close> with \<^verbatim>\<open>NewOutMessage\<close>, \<^verbatim>\<open>OutHeader\<close>,
  \<^verbatim>\<open>Grow\<close>, \<^verbatim>\<open>Append\<close>, \<^verbatim>\<open>AppendString\<close> and \<^verbatim>\<open>Bytes\<close> (package internal/buffer is not under
  src/). Section 4.1: a buffer of fixed capacity with room for the reply header followed by
  the payload; \<^verbatim>\<open>Grow(n)\<close> returns a region of \<open>n\<close> bytes appended after what is there;
  \<^verbatim>\<open>Append\<close> copies bytes; \<^verbatim>\<open>AppendString\<close> appends without a trailing NUL; \<^verbatim>\<open>Bytes()\<close> is
  the frame, header included; \<^verbatim>\<open>OutHeader()\<close> is the mutable header prefix. The message is a
  Go slice: \<open>slice = None\<close> is the nil slice of the zero value \<^verbatim>\<open>buffer.OutMessage{}\<close>, fresh
  storage is zeroed, and growing past the capacity is Go's slice panic.
\<close>

record OutMessage =
  slice :: "byte list option"
  capacity :: nat

text \<open>
  Modelled from the spec: \<^verbatim>\<open>fusekernel.OutHeader\<close> (section 3, reply header: total length,
  error code, unique id; section 6: 16 bytes), declared outside src/.
\<close>

definition OutHeaderSize :: nat where "OutHeaderSize = 16"
definition OutHeader_Len :: nat where "OutHeader_Len = 0"
definition OutHeader_Error :: nat where "OutHeader_Error = 4"
definition OutHeader_Unique :: nat where "OutHeader_Unique = 8"

definition zeroOutMessage :: OutMessage where
  "zeroOutMessage = \<lparr>slice = None, capacity = 0\<rparr>"

definition NewOutMessage :: "nat \<Rightarrow> OutMessage" where
  "NewOutMessage extra =
     \<lparr>slice = Some (replicate OutHeaderSize 0), capacity = OutHeaderSize + extra\<rparr>"

definition Bytes :: "OutMessage \<Rightarrow> byte list option" where
  "Bytes b = slice b"

text \<open>
  \<^verbatim>\<open>Grow\<close> returns the pointer to the new region, here its offset in the slice, and the
  grown message.
\<close>

definition Grow :: "OutMessage \<Rightarrow> nat \<Rightarrow> panic + (nat \<times> OutMessage)" where
  "Grow b sz =
     (case slice b of
        None \<Rightarrow> if sz = 0 then Inr (0, b) else Inl SliceOutOfRange
      | Some bs \<Rightarrow>
          if length bs + sz \<le> capacity b
          then Inr (length bs, b\<lparr>slice := Some (bs @ replicate sz 0)\<rparr>)
          else Inl SliceOutOfRange)"

text \<open>A store through a pointer \<open>p\<close> into the message's storage.\<close>

definition poke :: "nat \<Rightarrow> byte list \<Rightarrow> OutMessage \<Rightarrow> OutMessage" where
  "poke p bs b = b\<lparr>slice := map_option (store p bs) (slice b)\<rparr>"

definition Append :: "OutMessage \<Rightarrow> byte list \<Rightarrow> panic + OutMessage" where
  "Append b src =
     (case Grow b (length src) of
        Inl e \<Rightarrow> Inl e
      | Inr (p, b') \<Rightarrow> Inr (poke p src b'))"

definition AppendString :: "OutMessage \<Rightarrow> string \<Rightarrow> panic + OutMessage" where
  "AppendString b s = Append b (map of_char s)"

text \<open>Reading the header back from a frame.\<close>

definition frameLen :: "byte list \<Rightarrow> 32 word" where
  "frameLen msg = dec32 (load OutHeader_Len 4 msg)"

definition frameError :: "byte list \<Rightarrow> 32 word" where
  "frameError msg = dec32 (load OutHeader_Error 4 msg)"

definition frameUnique :: "byte list \<Rightarrow> 64 word" where
  "frameUnique msg = dec64 (load OutHeader_Unique 8 msg)"

definition frameBody :: "byte list \<Rightarrow> byte list" where
  "frameBody msg = drop OutHeaderSize msg"

subsection \<open>Package fusekernel and the conversions\<close>

record Protocol =
  Major :: "32 word"
  Minor :: "32 word"

text \<open>
  What \<^verbatim>\<open>kernelResponseForOp\<close> uses of package fusekernel and of conversions.go, neither
  under src/, is a parameter: the version-dependent sizes, and for each conversion the
  bytes it leaves in the struct it is given (the struct starts out zeroed). The types of
  the op fields they read (\<^verbatim>\<open>fuseops.ChildInodeEntry\<close>, \<^verbatim>\<open>fuseops.InodeAttributes\<close>,
  \<^verbatim>\<open>time.Time\<close>) are the type parameters \<open>'entry\<close>, \<open>'attr\<close> and \<open>'time\<close>.
\<close>

record ('entry, 'attr, 'time) fusekernel =
  EntryOutSize :: "Protocol \<Rightarrow> nat"
  AttrOutSize :: "Protocol \<Rightarrow> nat"
  convertChildInodeEntry :: "'entry \<Rightarrow> byte list"
  convertExpirationTime :: "'time \<Rightarrow> 64 word \<times> 32 word"
  convertAttributes :: "64 word \<Rightarrow> 'attr \<Rightarrow> byte list"

text \<open>
  Modelled from the spec: the fixed-size reply structs of package fusekernel (declared
  outside src/), laid out as the kernel ABI that section 6 requires:
  \<^verbatim>\<open>AttrOut {AttrValid uint64; AttrValidNsec uint32; Dummy uint32; Attr Attr}\<close>,
  \<^verbatim>\<open>OpenOut {Fh uint64; OpenFlags uint32; Padding uint32}\<close>,
  \<^verbatim>\<open>WriteOut {Size uint32; Padding uint32}\<close>,
  \<^verbatim>\<open>InitOut {Major, Minor, MaxReadahead, Flags, Unused, MaxWrite uint32}\<close> and
  \<^verbatim>\<open>StatfsOut\<close> of 80 bytes.
\<close>

definition AttrOut_AttrValid :: nat where "AttrOut_AttrValid = 0"
definition AttrOut_AttrValidNsec :: nat where "AttrOut_AttrValidNsec = 8"
definition AttrOut_Attr :: nat where "AttrOut_Attr = 16"

definition sizeof_OpenOut :: nat where "sizeof_OpenOut = 16"
definition OpenOut_Fh :: nat where "OpenOut_Fh = 0"

definition sizeof_WriteOut :: nat where "sizeof_WriteOut = 8"
definition WriteOut_Size :: nat where "WriteOut_Size = 0"

definition sizeof_StatfsOut :: nat where "sizeof_StatfsOut = 80"

definition sizeof_InitOut :: nat where "sizeof_InitOut = 24"
definition InitOut_Major :: nat where "InitOut_Major = 0"
definition InitOut_Minor :: nat where "InitOut_Minor = 4"
definition InitOut_MaxReadahead :: nat where "InitOut_MaxReadahead = 8"
definition InitOut_Flags :: nat where "InitOut_Flags = 12"
definition InitOut_Unused :: nat where "InitOut_Unused = 16"
definition InitOut_MaxWrite :: nat where "InitOut_MaxWrite = 20"

subsection \<open>The ops\<close>

text \<open>
  \<^verbatim>\<open>internalInitOp\<close>, as declared in ops.go. \<^verbatim>\<open>fusekernel.InitFlags\<close> is a \<^verbatim>\<open>uint32\<close>.
\<close>

record internalInitOp_fields =
  Kernel :: Protocol
  Library :: Protocol
  MaxReadahead :: "32 word"
  Flags :: "32 word"
  MaxWrite :: "32 word"

text \<open>
  The op argument is an \<^verbatim>\<open>interface{}\<close>. Each case of the type switch is a constructor,
  with the fields that \<^verbatim>\<open>kernelResponseForOp\<close> reads (the remaining fields of the fuseops
  structs are declared outside src/ and never read here); \<open>unknownOp\<close> is the sentinel of
  ops.go with its two fields, and \<open>otherValue\<close> stands for a value of any other dynamic
  type, named by its type. Pointers to ops are taken to be non-nil, as the decoder makes
  them.
\<close>

datatype ('entry, 'attr, 'time) op =
    LookUpInodeOp 'entry
  | GetInodeAttributesOp "64 word" 'attr 'time
  | SetInodeAttributesOp "64 word" 'attr 'time
  | ForgetInodeOp
  | MkDirOp 'entry
  | CreateFileOp 'entry "64 word"
  | CreateSymlinkOp 'entry
  | RenameOp
  | RmDirOp
  | UnlinkOp
  | OpenDirOp "64 word"
  | ReadDirOp "byte list"
  | ReleaseDirHandleOp
  | OpenFileOp "64 word"
  | ReadFileOp "byte list"
  | WriteFileOp "byte list"
  | SyncFileOp
  | FlushFileOp
  | ReleaseFileHandleOp
  | ReadSymlinkOp string
  | internalStatFSOp
  | internalInterruptOp "64 word"
  | internalInitOp internalInitOp_fields
  | unknownOp "32 word" "64 word"
  | otherValue string

text \<open>
  A Go \<^verbatim>\<open>error\<close> is nil (\<open>None\<close>), a \<^verbatim>\<open>syscall.Errno\<close> (a \<^verbatim>\<open>uintptr\<close>) or a value of another
  error type, kept by its message.
\<close>

datatype go_error = Errno "64 word" | otherError string

definition EIO :: "64 word" where "EIO = 5"
definition ENOSYS :: "64 word" where "ENOSYS = 38"   \<comment> \<open>the value on Linux\<close>

subsection \<open>kernelResponseForOp\<close>

text \<open>
  \<^verbatim>\<open>out := (*T)(b.Grow(size))\<close> followed by a conversion that fills \<^verbatim>\<open>*out\<close>: the region is
  grown, then the bytes the conversion leaves in the struct are stored at its start. Only
  the first \<^verbatim>\<open>size\<close> bytes of the struct lie in the region; a conversion is taken not to
  write past them. The source's \<^verbatim>\<open>size\<close> and \<^verbatim>\<open>o\<close> are \<open>sz\<close> and \<open>o'\<close> here, the two names
  being taken in HOL.
\<close>

definition entryReply ::
  "('entry, 'attr, 'time) fusekernel \<Rightarrow> 'entry \<Rightarrow> OutMessage \<Rightarrow> nat \<Rightarrow> panic + OutMessage" where
  "entryReply k entry b sz =
     (case Grow b sz of
        Inl e \<Rightarrow> Inl e
      | Inr (out, b') \<Rightarrow> Inr (poke out (take sz (convertChildInodeEntry k entry)) b'))"

definition attrReply ::
  "('entry, 'attr, 'time) fusekernel \<Rightarrow> 64 word \<Rightarrow> 'attr \<Rightarrow> 'time \<Rightarrow> OutMessage \<Rightarrow> nat
     \<Rightarrow> panic + OutMessage" where
  "attrReply k inode attributes expiration b sz =
     (case Grow b sz of
        Inl e \<Rightarrow> Inl e
      | Inr (out, b') \<Rightarrow>
          (let (valid, validNsec) = convertExpirationTime k expiration;
               b1 = poke (out + AttrOut_AttrValid) (enc64 valid) b';
               b2 = poke (out + AttrOut_AttrValidNsec) (enc32 validNsec) b1
           in Inr (poke (out + AttrOut_Attr)
                     (take (sz - AttrOut_Attr) (convertAttributes k inode attributes)) b2)))"

definition openReply :: "64 word \<Rightarrow> OutMessage \<Rightarrow> panic + OutMessage" where
  "openReply handle b =
     (case Grow b sizeof_OpenOut of
        Inl e \<Rightarrow> Inl e
      | Inr (out, b') \<Rightarrow> Inr (poke (out + OpenOut_Fh) (enc64 handle) b'))"

fun kernelResponseForOp ::
  "('entry, 'attr, 'time) fusekernel \<Rightarrow> ('entry, 'attr, 'time) op \<Rightarrow> Protocol
     \<Rightarrow> panic + OutMessage" where
  "kernelResponseForOp k (LookUpInodeOp entry) protocol =
     (let sz = EntryOutSize k protocol
      in entryReply k entry (NewOutMessage sz) sz)"
| "kernelResponseForOp k (GetInodeAttributesOp inode attributes expiration) protocol =
     (let sz = AttrOutSize k protocol
      in attrReply k inode attributes expiration (NewOutMessage sz) sz)"
| "kernelResponseForOp k (SetInodeAttributesOp inode attributes expiration) protocol =
     (let sz = AttrOutSize k protocol
      in attrReply k inode attributes expiration (NewOutMessage sz) sz)"
| "kernelResponseForOp k ForgetInodeOp protocol = Inr zeroOutMessage"
| "kernelResponseForOp k (MkDirOp entry) protocol =
     (let sz = EntryOutSize k protocol
      in entryReply k entry (NewOutMessage sz) sz)"
| "kernelResponseForOp k (CreateFileOp entry handle) protocol =
     (let eSize = EntryOutSize k protocol
      in case entryReply k entry (NewOutMessage (eSize + sizeof_OpenOut)) eSize of
           Inl e \<Rightarrow> Inl e
         | Inr b \<Rightarrow> openReply handle b)"
| "kernelResponseForOp k (CreateSymlinkOp entry) protocol =
     (let sz = EntryOutSize k protocol
      in entryReply k entry (NewOutMessage sz) sz)"
| "kernelResponseForOp k RenameOp protocol = Inr (NewOutMessage 0)"
| "kernelResponseForOp k RmDirOp protocol = Inr (NewOutMessage 0)"
| "kernelResponseForOp k UnlinkOp protocol = Inr (NewOutMessage 0)"
| "kernelResponseForOp k (OpenDirOp handle) protocol =
     openReply handle (NewOutMessage sizeof_OpenOut)"
| "kernelResponseForOp k (ReadDirOp data) protocol =
     Append (NewOutMessage (length data)) data"
| "kernelResponseForOp k ReleaseDirHandleOp protocol = Inr (NewOutMessage 0)"
| "kernelResponseForOp k (OpenFileOp handle) protocol =
     openReply handle (NewOutMessage sizeof_OpenOut)"
| "kernelResponseForOp k (ReadFileOp data) protocol =
     Append (NewOutMessage (length data)) data"
| "kernelResponseForOp k (WriteFileOp data) protocol =
     (case Grow (NewOutMessage sizeof_WriteOut) sizeof_WriteOut of
        Inl e \<Rightarrow> Inl e
      | Inr (out, b) \<Rightarrow> Inr (poke (out + WriteOut_Size) (enc32 (of_nat (length data))) b))"
| "kernelResponseForOp k SyncFileOp protocol = Inr (NewOutMessage 0)"
| "kernelResponseForOp k FlushFileOp protocol = Inr (NewOutMessage 0)"
| "kernelResponseForOp k ReleaseFileHandleOp protocol = Inr (NewOutMessage 0)"
| "kernelResponseForOp k (ReadSymlinkOp target) protocol =
     AppendString (NewOutMessage (length target)) target"
| "kernelResponseForOp k internalStatFSOp protocol =
     (case Grow (NewOutMessage sizeof_StatfsOut) sizeof_StatfsOut of
        Inl e \<Rightarrow> Inl e
      | Inr (out, b) \<Rightarrow> Inr b)"
| "kernelResponseForOp k (internalInterruptOp fuseID) protocol = Inr zeroOutMessage"
| "kernelResponseForOp k (internalInitOp o') protocol =
     (case Grow (NewOutMessage sizeof_InitOut) sizeof_InitOut of
        Inl e \<Rightarrow> Inl e
      | Inr (out, b) \<Rightarrow>
          (let b1 = poke (out + InitOut_Major) (enc32 (Major (Library o'))) b;
               b2 = poke (out + InitOut_Minor) (enc32 (Minor (Library o'))) b1;
               b3 = poke (out + InitOut_MaxReadahead) (enc32 (MaxReadahead o')) b2;
               b4 = poke (out + InitOut_Flags) (enc32 (Flags o')) b3
           in Inr (poke (out + InitOut_MaxWrite) (enc32 (MaxWrite o')) b4)))"
| "kernelResponseForOp k (unknownOp opCode inode) protocol = Inl UnknownOp"
| "kernelResponseForOp k (otherValue tp) protocol = Inl UnknownOp"

subsection \<open>kernelResponse\<close>

text \<open>
  \<^verbatim>\<open>msg = b.Bytes()\<close> shares its storage with \<open>b\<close>, and the header is filled in through
  \<^verbatim>\<open>b.OutHeader()\<close> afterwards: what the caller gets is the storage after these stores.
  \<open>Inr None\<close> is the nil message.
\<close>

definition kernelResponse ::
  "('entry, 'attr, 'time) fusekernel \<Rightarrow> 64 word \<Rightarrow> ('entry, 'attr, 'time) op
     \<Rightarrow> go_error option \<Rightarrow> Protocol \<Rightarrow> panic + byte list option" where
  "kernelResponse k fuseID op opErr protocol =
     (case (case opErr of
              Some err \<Rightarrow>
                (let b = NewOutMessage 0
                 in case err of
                      Errno errno \<Rightarrow> Inr (poke OutHeader_Error (enc32 (- ucast errno)) b)
                    | otherError _ \<Rightarrow> Inr (poke OutHeader_Error (enc32 (- ucast EIO)) b))
            | None \<Rightarrow> kernelResponseForOp k op protocol) of
        Inl e \<Rightarrow> Inl e
      | Inr b \<Rightarrow>
          (case Bytes b of
             None \<Rightarrow> Inr None
           | Some msg \<Rightarrow>
               (let b1 = poke OutHeader_Unique (enc64 fuseID) b;
                    b2 = poke OutHeader_Len (enc32 (of_nat (length msg))) b1
                in Inr (Bytes b2))))"

subsection \<open>Which ops are answered\<close>

text \<open>
  The two cases of the type switch that leave \<open>b\<close> at its zero value, commented
  \<^verbatim>\<open>// No response.\<close> in the source.
\<close>

fun noResponse :: "('entry, 'attr, 'time) op \<Rightarrow> bool" where
  "noResponse ForgetInodeOp = True"
| "noResponse (internalInterruptOp fuseID) = True"
| "noResponse _ = False"

text \<open>The dynamic types that have a case in the type switch, that is all but its default.\<close>

fun recognisedOp :: "('entry, 'attr, 'time) op \<Rightarrow> bool" where
  "recognisedOp (unknownOp opCode inode) = False"
| "recognisedOp (otherValue tp) = False"
| "recognisedOp _ = True"

subsection \<open>The server's handler\<close>

text \<open>
  Modelled from the spec: the server loop's handling of one op that the connection returned
  (sections 4.3 and 4.7, scenario 5; the server loop and the connection are not under
  src/). An unknown op is answered with \<^verbatim>\<open>ENOSYS\<close> without invoking user code; any other op
  is handed to the user's callback, which fills the out-fields and returns the error to
  reply with. The result is the reply together with the list of ops handed to user code.
  Init and Interrupt are handled by the connection itself (sections 4.5 and 4.6) and are
  never returned to the server loop.
\<close>

definition serverHandleOp ::
  "('entry, 'attr, 'time) fusekernel
     \<Rightarrow> (('entry, 'attr, 'time) op \<Rightarrow> ('entry, 'attr, 'time) op \<times> go_error option)
     \<Rightarrow> 64 word \<Rightarrow> ('entry, 'attr, 'time) op \<Rightarrow> Protocol
     \<Rightarrow> (panic + byte list option) \<times> ('entry, 'attr, 'time) op list" where
  "serverHandleOp k fileSystem fuseID op protocol =
     (case op of
        unknownOp opCode inode \<Rightarrow>
          (kernelResponse k fuseID op (Some (Errno ENOSYS)) protocol, [])
      | _ \<Rightarrow>
          (let (op', err) = fileSystem op
           in (kernelResponse k fuseID op' err protocol, [op])))"

subsection \<open>An instance for closed examples\<close>

text \<open>
  The sizes are those of the Linux ABI on either side of protocol 7.9; the conversions
  leave the inode number at the start of the struct. Entries, attributes and times are
  numbers here.
\<close>

definition protocolLT :: "Protocol \<Rightarrow> Protocol \<Rightarrow> bool" where
  "protocolLT a b = (Major a < Major b \<or> (Major a = Major b \<and> Minor a < Minor b))"

definition exampleKernel :: "(nat, nat, nat) fusekernel" where
  "exampleKernel =
     \<lparr>EntryOutSize = (\<lambda>p. if protocolLT p \<lparr>Major = 7, Minor = 9\<rparr> then 120 else 128),
      AttrOutSize = (\<lambda>p. if protocolLT p \<lparr>Major = 7, Minor = 9\<rparr> then 96 else 104),
      convertChildInodeEntry = (\<lambda>entry. enc64 (of_nat entry)),
      convertExpirationTime = (\<lambda>t. (of_nat t, 0)),
      convertAttributes = (\<lambda>inode attributes. enc64 inode)\<rparr>"

definition exampleProtocol :: Protocol where
  "exampleProtocol = \<lparr>Major = 7, Minor = 31\<rparr>"

definition exampleInit :: internalInitOp_fields where
  "exampleInit =
     \<lparr>Kernel = \<lparr>Major = 7, Minor = 31\<rparr>, Library = \<lparr>Major = 7, Minor = 23\<rparr>,
      MaxReadahead = 0x100000, Flags = 0x11, MaxWrite = 0x20000\<rparr>"

section \<open>Properties\<close>

subsection \<open>Little-endian fields\<close>

lemma byte_split:
  "ucast (ucast w :: 8 word) OR push_bit 8 (drop_bit 8 w) = (w :: 'a::len word)"
proof (rule bit_word_eqI)
  fix n assume n: "n < LENGTH('a)"
  show "bit (ucast (ucast w :: 8 word) OR push_bit 8 (drop_bit 8 w)) n = bit w n"
  proof (cases "n < 8")
    case True
    with n show ?thesis by (simp add: bit_simps)
  next
    case False
    then have "8 + (n - 8) = n" by simp
    with False n show ?thesis by (simp add: bit_simps)
  qed
qed

lemma byte_split_drop:
  "ucast (ucast (drop_bit k w) :: 8 word) OR push_bit 8 (drop_bit (8 + k) w)
     = drop_bit k (w :: 'a::len word)"
  using byte_split [of "drop_bit k w"] by (simp add: drop_bit_drop_bit add.commute)

lemma dec32_enc32 [simp]: "dec32 (enc32 w) = w"
proof -
  have z: "drop_bit 32 w = 0" by (simp add: drop_bit_word_beyond)
  have s: "ucast (ucast (drop_bit 24 w) :: 8 word) OR push_bit 8 (drop_bit 32 w) = drop_bit 24 w"
      "ucast (ucast (drop_bit 16 w) :: 8 word) OR push_bit 8 (drop_bit 24 w) = drop_bit 16 w"
      "ucast (ucast (drop_bit 8 w) :: 8 word) OR push_bit 8 (drop_bit 16 w) = drop_bit 8 w"
    using byte_split_drop [of 24 w] byte_split_drop [of 16 w] byte_split_drop [of 8 w]
    by simp_all
  have "dec32 (enc32 w) =
      ucast (ucast w :: 8 word) OR push_bit 8 (ucast (ucast (drop_bit 8 w) :: 8 word) OR
      push_bit 8 (ucast (ucast (drop_bit 16 w) :: 8 word) OR
      push_bit 8 (ucast (ucast (drop_bit 24 w) :: 8 word) OR push_bit 8 (drop_bit 32 w))))"
    by (simp add: dec32_def enc32_def z)
  also have "\<dots> = w"
    by (simp only: s byte_split)
  finally show ?thesis .
qed

lemma dec64_enc64 [simp]: "dec64 (enc64 w) = w"
proof -
  have z: "drop_bit 64 w = 0" by (simp add: drop_bit_word_beyond)
  have s: "ucast (ucast (drop_bit 56 w) :: 8 word) OR push_bit 8 (drop_bit 64 w) = drop_bit 56 w"
      "ucast (ucast (drop_bit 48 w) :: 8 word) OR push_bit 8 (drop_bit 56 w) = drop_bit 48 w"
      "ucast (ucast (drop_bit 40 w) :: 8 word) OR push_bit 8 (drop_bit 48 w) = drop_bit 40 w"
      "ucast (ucast (drop_bit 32 w) :: 8 word) OR push_bit 8 (drop_bit 40 w) = drop_bit 32 w"
      "ucast (ucast (drop_bit 24 w) :: 8 word) OR push_bit 8 (drop_bit 32 w) = drop_bit 24 w"
      "ucast (ucast (drop_bit 16 w) :: 8 word) OR push_bit 8 (drop_bit 24 w) = drop_bit 16 w"
      "ucast (ucast (drop_bit 8 w) :: 8 word) OR push_bit 8 (drop_bit 16 w) = drop_bit 8 w"
    using byte_split_drop [of 56 w] byte_split_drop [of 48 w] byte_split_drop [of 40 w]
      byte_split_drop [of 32 w] byte_split_drop [of 24 w] byte_split_drop [of 16 w]
      byte_split_drop [of 8 w]
    by simp_all
  have "dec64 (enc64 w) =
      ucast (ucast w :: 8 word) OR push_bit 8 (ucast (ucast (drop_bit 8 w) :: 8 word) OR
      push_bit 8 (ucast (ucast (drop_bit 16 w) :: 8 word) OR
      push_bit 8 (ucast (ucast (drop_bit 24 w) :: 8 word) OR
      push_bit 8 (ucast (ucast (drop_bit 32 w) :: 8 word) OR
      push_bit 8 (ucast (ucast (drop_bit 40 w) :: 8 word) OR
      push_bit 8 (ucast (ucast (drop_bit 48 w) :: 8 word) OR
      push_bit 8 (ucast (ucast (drop_bit 56 w) :: 8 word) OR push_bit 8 (drop_bit 64 w))))))))"
    by (simp add: dec64_def enc64_def z)
  also have "\<dots> = w"
    by (simp only: s byte_split)
  finally show ?thesis .
qed

lemma length_enc32 [simp]: "length (enc32 w) = 4"
  by (simp add: enc32_def)

lemma length_enc64 [simp]: "length (enc64 w) = 8"
  by (simp add: enc64_def)

subsection \<open>Stores\<close>

lemma length_store [simp]: "length (store off bs mem) = length mem"
  by (simp add: store_def)

lemma store_past_prefix:
  "length a \<le> p \<Longrightarrow> store p bs (a @ m) = a @ store (p - length a) bs m"
  by (simp add: store_def)

lemma store_whole: "length bs = length m \<Longrightarrow> store 0 bs m = bs"
  by (simp add: store_def)

subsection \<open>The header of a frame\<close>

lemma header_fill:
  "16 \<le> length bs \<Longrightarrow>
     store 0 (enc32 l) (store 8 (enc64 u) bs) = enc32 l @ take 4 (drop 4 bs) @ enc64 u @ drop 16 bs"
  by (simp add: store_def take_drop min_def)

lemma store_error_zero:
  "store 4 (enc32 x) (replicate 16 0) = replicate 4 0 @ enc32 x @ replicate 8 0"
  by (simp add: store_def)

lemma kernelResponse_err:
  "kernelResponse k fuseID op (Some err) p =
     Inr (Some (enc32 16 @ enc32 (case err of Errno e \<Rightarrow> - ucast e | otherError m \<Rightarrow> - ucast EIO)
                 @ enc64 fuseID))"
  by (cases err)
    (simp_all add: kernelResponse_def NewOutMessage_def poke_def Bytes_def OutHeaderSize_def
      OutHeader_Error_def OutHeader_Unique_def OutHeader_Len_def store_error_zero header_fill)

lemma kernelResponse_nil_some:
  "kernelResponseForOp k op p = Inr b \<Longrightarrow> slice b = Some bs \<Longrightarrow> 16 \<le> length bs \<Longrightarrow>
   kernelResponse k fuseID op None p =
     Inr (Some (enc32 (of_nat (length bs)) @ take 4 (drop 4 bs) @ enc64 fuseID @ drop 16 bs))"
  by (simp add: kernelResponse_def poke_def Bytes_def 
      OutHeader_Unique_def OutHeader_Len_def header_fill)

lemma kernelResponse_nil_none:
  "kernelResponseForOp k op p = Inr b \<Longrightarrow> slice b = None \<Longrightarrow>
   kernelResponse k fuseID op None p = Inr None"
  by (simp add: kernelResponse_def Bytes_def)

lemma kernelResponse_nil_panic:
  "kernelResponseForOp k op p = Inl e \<Longrightarrow> kernelResponse k fuseID op None p = Inl e"
  by (simp add: kernelResponse_def)

subsection \<open>The message built for each op\<close>

lemma Grow_New:
  "n \<le> extra \<Longrightarrow> Grow (NewOutMessage extra) n =
     Inr (16, \<lparr>slice = Some (replicate 16 0 @ replicate n 0), capacity = 16 + extra\<rparr>)"
  by (simp add: Grow_def NewOutMessage_def OutHeaderSize_def)

lemma poke_Some:
  "poke p bs \<lparr>slice = Some m, capacity = c\<rparr> = \<lparr>slice = Some (store p bs m), capacity = c\<rparr>"
  by (simp add: poke_def)

lemma store_hdr:
  "store (16 + off) bs (replicate 16 0 @ m) = replicate 16 0 @ store off bs m"
  "store 16 bs (replicate 16 0 @ m) = replicate 16 0 @ store 0 bs m"
  by (simp_all add: store_past_prefix)

lemma entryReply_New:
  "sz \<le> extra \<Longrightarrow> entryReply k entry (NewOutMessage extra) sz =
     Inr \<lparr>slice = Some (replicate 16 0 @ store 0 (take sz (convertChildInodeEntry k entry)) (replicate sz 0)),
          capacity = 16 + extra\<rparr>"
  by (simp add: entryReply_def Grow_New poke_Some store_hdr)

lemma attrReply_New:
  "attrReply k inode attributes expiration (NewOutMessage sz) sz =
     Inr \<lparr>slice = Some (replicate 16 0 @
            store 16 (take (sz - 16) (convertAttributes k inode attributes))
              (store 8 (enc32 (snd (convertExpirationTime k expiration)))
                (store 0 (enc64 (fst (convertExpirationTime k expiration))) (replicate sz 0)))),
          capacity = 16 + sz\<rparr>"
  by (simp add: attrReply_def Grow_New poke_Some store_past_prefix AttrOut_AttrValid_def
      AttrOut_AttrValidNsec_def AttrOut_Attr_def split: prod.split)

lemma Append_New:
  "Append (NewOutMessage (length src)) src =
     Inr \<lparr>slice = Some (replicate 16 0 @ src), capacity = 16 + length src\<rparr>"
  by (simp add: Append_def Grow_New poke_Some store_hdr store_whole)

lemma openReply_entry:
  "length body + 32 \<le> c \<Longrightarrow>
   openReply handle \<lparr>slice = Some (replicate 16 0 @ body), capacity = c\<rparr> =
     Inr \<lparr>slice = Some (replicate 16 0 @ body @ enc64 handle @ replicate 8 0), capacity = c\<rparr>"
  by (simp add: openReply_def Grow_def poke_Some sizeof_OpenOut_def OpenOut_Fh_def store_def)

lemma CreateFile_New:
  "kernelResponseForOp k (CreateFileOp entry handle) p =
     Inr \<lparr>slice = Some (replicate 16 0 @
             store 0 (take (EntryOutSize k p) (convertChildInodeEntry k entry))
               (replicate (EntryOutSize k p) 0) @ enc64 handle @ replicate 8 0),
          capacity = 32 + EntryOutSize k p\<rparr>"
  by (simp add: entryReply_New openReply_entry sizeof_OpenOut_def Let_def)

lemma WriteFile_New:
  "kernelResponseForOp k (WriteFileOp data) p =
     Inr \<lparr>slice = Some (replicate 16 0 @ enc32 (of_nat (length data)) @ replicate 4 0),
          capacity = 24\<rparr>"
  by (simp add: Grow_New poke_Some store_past_prefix sizeof_WriteOut_def WriteOut_Size_def store_def)

lemma StatFS_New:
  "kernelResponseForOp k internalStatFSOp p =
     Inr \<lparr>slice = Some (replicate 16 0 @ replicate sizeof_StatfsOut 0),
          capacity = 16 + sizeof_StatfsOut\<rparr>"
  by (simp add: Grow_New)

lemma Init_New:
  "kernelResponseForOp k (internalInitOp i) p =
     Inr \<lparr>slice = Some (replicate 16 0 @ enc32 (Major (Library i)) @ enc32 (Minor (Library i))
                   @ enc32 (MaxReadahead i) @ enc32 (Flags i) @ replicate 4 0 @ enc32 (MaxWrite i)),
          capacity = 40\<rparr>"
  by (simp add: Grow_New poke_Some store_past_prefix sizeof_InitOut_def InitOut_Major_def
     InitOut_Minor_def InitOut_MaxReadahead_def InitOut_Flags_def InitOut_MaxWrite_def store_def)


subsection \<open>Frames\<close>

lemma enc32_0: "replicate 4 (0::byte) = enc32 0"
  by (simp add: enc32_def numeral_eq_Suc)

lemma frame_fields:
  "frameLen (enc32 l @ enc32 e @ enc64 u @ body) = l"
  "frameError (enc32 l @ enc32 e @ enc64 u @ body) = e"
  "frameUnique (enc32 l @ enc32 e @ enc64 u @ body) = u"
  "frameBody (enc32 l @ enc32 e @ enc64 u @ body) = body"
  by (simp_all add: frameLen_def frameError_def frameUnique_def frameBody_def load_def
      OutHeader_Len_def OutHeader_Error_def OutHeader_Unique_def OutHeaderSize_def)

lemma New_0: "NewOutMessage 0 = \<lparr>slice = Some (replicate 16 0 @ []), capacity = 16\<rparr>"
  by (simp add: NewOutMessage_def OutHeaderSize_def)

lemma Entry_New:
  "kernelResponseForOp k (LookUpInodeOp entry) p =
     Inr \<lparr>slice = Some (replicate 16 0 @
             store 0 (take (EntryOutSize k p) (convertChildInodeEntry k entry))
               (replicate (EntryOutSize k p) 0)),
          capacity = 16 + EntryOutSize k p\<rparr>"
  "kernelResponseForOp k (MkDirOp entry) p =
     Inr \<lparr>slice = Some (replicate 16 0 @
             store 0 (take (EntryOutSize k p) (convertChildInodeEntry k entry))
               (replicate (EntryOutSize k p) 0)),
          capacity = 16 + EntryOutSize k p\<rparr>"
  "kernelResponseForOp k (CreateSymlinkOp entry) p =
     Inr \<lparr>slice = Some (replicate 16 0 @
             store 0 (take (EntryOutSize k p) (convertChildInodeEntry k entry))
               (replicate (EntryOutSize k p) 0)),
          capacity = 16 + EntryOutSize k p\<rparr>"
  by (simp_all add: entryReply_New Let_def)

lemma Attr_New:
  "kernelResponseForOp k (GetInodeAttributesOp inode attributes expiration) p =
     Inr \<lparr>slice = Some (replicate 16 0 @
            store 16 (take (AttrOutSize k p - 16) (convertAttributes k inode attributes))
              (store 8 (enc32 (snd (convertExpirationTime k expiration)))
                (store 0 (enc64 (fst (convertExpirationTime k expiration)))
                  (replicate (AttrOutSize k p) 0)))),
          capacity = 16 + AttrOutSize k p\<rparr>"
  "kernelResponseForOp k (SetInodeAttributesOp inode attributes expiration) p =
     Inr \<lparr>slice = Some (replicate 16 0 @
            store 16 (take (AttrOutSize k p - 16) (convertAttributes k inode attributes))
              (store 8 (enc32 (snd (convertExpirationTime k expiration)))
                (store 0 (enc64 (fst (convertExpirationTime k expiration)))
                  (replicate (AttrOutSize k p) 0)))),
          capacity = 16 + AttrOutSize k p\<rparr>"
  by (simp_all add: attrReply_New Let_def)

lemma Open_New:
  "kernelResponseForOp k (OpenDirOp handle) p =
     Inr \<lparr>slice = Some (replicate 16 0 @ enc64 handle @ replicate 8 0), capacity = 32\<rparr>"
  "kernelResponseForOp k (OpenFileOp handle) p =
     Inr \<lparr>slice = Some (replicate 16 0 @ enc64 handle @ replicate 8 0), capacity = 32\<rparr>"
  using openReply_entry [of "[]" 32 handle]
  by (simp_all add: NewOutMessage_def OutHeaderSize_def sizeof_OpenOut_def)

lemma Read_New:
  "kernelResponseForOp k (ReadDirOp data) p =
     Inr \<lparr>slice = Some (replicate 16 0 @ data), capacity = 16 + length data\<rparr>"
  "kernelResponseForOp k (ReadFileOp data) p =
     Inr \<lparr>slice = Some (replicate 16 0 @ data), capacity = 16 + length data\<rparr>"
  "kernelResponseForOp k (ReadSymlinkOp target) p =
     Inr \<lparr>slice = Some (replicate 16 0 @ map of_char target), capacity = 16 + length target\<rparr>"
  using Append_New [of "map of_char target"]
  by (simp_all add: Append_New AppendString_def)

lemmas forOp_eqs = Entry_New Attr_New CreateFile_New Open_New Read_New WriteFile_New
  StatFS_New Init_New

lemma forOp_reply:
  "recognisedOp op \<Longrightarrow> \<not> noResponse op \<Longrightarrow>
     \<exists>body c. kernelResponseForOp k op p = Inr \<lparr>slice = Some (replicate 16 0 @ body), capacity = c\<rparr>"
proof (cases op)
  case RenameOp
  then show ?thesis using New_0 by simp
next
  case RmDirOp
  then show ?thesis using New_0 by simp
next
  case UnlinkOp
  then show ?thesis using New_0 by simp
next
  case ReleaseDirHandleOp
  then show ?thesis using New_0 by simp
next
  case SyncFileOp
  then show ?thesis using New_0 by simp
next
  case FlushFileOp
  then show ?thesis using New_0 by simp
next
  case ReleaseFileHandleOp
  then show ?thesis using New_0 by simp
qed (simp_all add: forOp_eqs del: kernelResponseForOp.simps)

lemma forOp_noResponse:
  "noResponse op \<Longrightarrow> kernelResponseForOp k op p = Inr zeroOutMessage"
  by (cases op) simp_all

lemma forOp_unrecognised:
  "\<not> recognisedOp op \<Longrightarrow> kernelResponseForOp k op p = Inl UnknownOp"
  by (cases op) simp_all

lemma kernelResponse_nil_body:
  "kernelResponseForOp k op p = Inr \<lparr>slice = Some (replicate 16 0 @ body), capacity = c\<rparr> \<Longrightarrow>
   kernelResponse k fuseID op None p =
     Inr (Some (enc32 (of_nat (16 + length body)) @ enc32 0 @ enc64 fuseID @ body))"
  using kernelResponse_nil_some [of k op p "\<lparr>slice = Some (replicate 16 0 @ body), capacity = c\<rparr>"
      "replicate 16 0 @ body" fuseID]
  by (simp add: enc32_0)

lemma kernelResponse_nil_reply:
  "recognisedOp op \<Longrightarrow> \<not> noResponse op \<Longrightarrow>
     \<exists>body. kernelResponse k fuseID op None p =
        Inr (Some (enc32 (of_nat (16 + length body)) @ enc32 0 @ enc64 fuseID @ body))"
  using forOp_reply [of op k p] kernelResponse_nil_body [of k op p _ _ fuseID]
  by blast

lemma kernelResponse_reply:
  "opErr = None \<longrightarrow> recognisedOp op \<and> \<not> noResponse op \<Longrightarrow>
     \<exists>e body. kernelResponse k fuseID op opErr p =
        Inr (Some (enc32 (of_nat (16 + length body)) @ enc32 e @ enc64 fuseID @ body))"
proof (cases opErr)
  case None
  assume "opErr = None \<longrightarrow> recognisedOp op \<and> \<not> noResponse op"
  with None kernelResponse_nil_reply [of op k fuseID p] show ?thesis by auto
next
  case (Some err)
  have "kernelResponse k fuseID op (Some err) p =
     Inr (Some (enc32 (of_nat (16 + length ([]::byte list)))
       @ enc32 (case err of Errno e \<Rightarrow> - ucast e | otherError m \<Rightarrow> - ucast EIO)
       @ enc64 fuseID @ []))"
    by (simp add: kernelResponse_err)
  with Some show ?thesis by blast
qed

lemma sint_neg_errno:
  assumes "uint (errno :: 64 word) < 2 ^ 31"
  shows "sint (- (ucast errno :: 32 word)) = - uint errno"
proof -
  have g: "0 \<le> uint errno" by simp
  have "- (2 ^ 31) \<le> (0::int)" by simp
  then have lo: "- (2 ^ 31) \<le> uint errno" using g by (rule order_trans)
  have lo': "- (2 ^ 31) \<le> - uint errno" using assms g by linarith
  have "(0::int) < 2 ^ 31" by simp
  then have hi': "- uint errno < 2 ^ 31" using g by linarith
  have u: "uint (ucast errno :: 32 word) = uint errno"
    using assms by (simp add: unsigned_ucast_eq take_bit_int_eq_self)
  have t: "signed_take_bit 31 (uint errno) = uint errno"
    using lo assms by (rule signed_take_bit_int_eq_self)
  have s: "sint (ucast errno :: 32 word) = uint errno"
    using u t by (simp add: sint_uint)
  have n: "signed_take_bit 31 (- uint errno) = - uint errno"
    using lo' hi' by (rule signed_take_bit_int_eq_self)
  show ?thesis
    using n by (simp add: sint_word_minus s)
qed

lemma frame_fields_hdr:
  "frameLen (enc32 l @ enc32 e @ enc64 u) = l"
  "frameError (enc32 l @ enc32 e @ enc64 u) = e"
  "frameUnique (enc32 l @ enc32 e @ enc64 u) = u"
  "frameBody (enc32 l @ enc32 e @ enc64 u) = []"
  using frame_fields [of l e u "[]"] by simp_all

lemma kernelResponse_frame:
  assumes "opErr = None \<longrightarrow> recognisedOp op \<and> \<not> noResponse op"
  shows "\<exists>msg. kernelResponse k fuseID op opErr p = Inr (Some msg)
          \<and> frameUnique msg = fuseID \<and> frameLen msg = of_nat (length msg)
          \<and> OutHeaderSize \<le> length msg"
proof -
  from kernelResponse_reply [OF assms, of k fuseID p] obtain e body where
    r: "kernelResponse k fuseID op opErr p =
          Inr (Some (enc32 (of_nat (16 + length body)) @ enc32 e @ enc64 fuseID @ body))"
    by blast
  define msg where "msg = enc32 (of_nat (16 + length body)) @ enc32 e @ enc64 fuseID @ body"
  have len: "length msg = 16 + length body"
    by (simp add: msg_def)
  have "frameLen msg = of_nat (16 + length body)"
    unfolding msg_def by (rule frame_fields)
  then have "frameLen msg = of_nat (length msg)"
    by (simp only: len)
  moreover have "frameUnique msg = fuseID"
    unfolding msg_def by (rule frame_fields)
  moreover have "OutHeaderSize \<le> length msg"
    by (simp add: len OutHeaderSize_def)
  moreover have "kernelResponse k fuseID op opErr p = Inr (Some msg)"
    by (simp only: r msg_def)
  ultimately show ?thesis by blast
qed

lemma kernelResponseForOp_recognised:
  "recognisedOp op \<Longrightarrow> \<exists>b. kernelResponseForOp k op p = Inr b"
  by (cases "noResponse op") (auto simp add: forOp_noResponse dest: forOp_reply [of op k p])

lemma noResponse_iff:
  "kernelResponseForOp k op p = Inr b \<Longrightarrow> (Bytes b = None) = noResponse op"
proof (cases "noResponse op")
  case True
  assume "kernelResponseForOp k op p = Inr b"
  with True show ?thesis
    by (auto simp add: forOp_noResponse zeroOutMessage_def Bytes_def)
next
  case False
  assume r: "kernelResponseForOp k op p = Inr b"
  then have "recognisedOp op"
    using forOp_unrecognised [of op k p] by auto
  from forOp_reply [OF this False, of k p] r False show ?thesis
    by (auto simp add: Bytes_def)
qed

text \<open>The sizes of the example differ on the two sides of protocol 7.9.\<close>

lemma example_sizes:
  "kernelResponse exampleKernel 1 (LookUpInodeOp 2) None \<lparr>Major = 7, Minor = 8\<rparr>
     = Inr (Some ([136, 0, 0, 0, 0, 0, 0, 0, 1, 0, 0, 0, 0, 0, 0, 0]
                   @ [2, 0, 0, 0, 0, 0, 0, 0] @ replicate 112 0))"
  "kernelResponse exampleKernel 1 (LookUpInodeOp 2) None \<lparr>Major = 7, Minor = 31\<rparr>
     = Inr (Some ([144, 0, 0, 0, 0, 0, 0, 0, 1, 0, 0, 0, 0, 0, 0, 0]
                   @ [2, 0, 0, 0, 0, 0, 0, 0] @ replicate 120 0))"
  by (simp_all add: kernelResponse_nil_body [OF Entry_New(1)] exampleKernel_def protocolLT_def
      enc32_def enc64_def store_def)

section \<open>The claims\<close>

lemma kernelResponse_noResponse_nil:
  "noResponse op \<Longrightarrow> kernelResponse k fuseID op None p = Inr None"
  by (simp add: forOp_noResponse kernelResponse_nil_none [of k op p zeroOutMessage]
      zeroOutMessage_def)

text \<open>
  C1. A Forget op and an Interrupt op get no reply frame, whatever the error replied with.
  The doc comment of \<^verbatim>\<open>kernelResponse\<close> says so ("If the op requires no response, return a
  nil response") and the nil-error path does it (\<open>kernelResponse_noResponse_nil\<close>), but the
  error branch never looks at the op: replying \<^verbatim>\<open>ENOSYS\<close> to a Forget op or to an Interrupt
  op with \<^verbatim>\<open>fuseID\<close> 7 yields a 16-byte frame with \<^verbatim>\<open>Len\<close> 16, \<^verbatim>\<open>Error\<close> -38 and \<^verbatim>\<open>Unique\<close> 7.
\<close>

theorem C1_error_reply_to_forget_and_interrupt:
  "kernelResponse exampleKernel 7 ForgetInodeOp (Some (Errno ENOSYS)) exampleProtocol
     = Inr (Some [16, 0, 0, 0, 218, 255, 255, 255, 7, 0, 0, 0, 0, 0, 0, 0])
   \<and> kernelResponse exampleKernel 7 (internalInterruptOp 3) (Some (Errno ENOSYS)) exampleProtocol
     = Inr (Some [16, 0, 0, 0, 218, 255, 255, 255, 7, 0, 0, 0, 0, 0, 0, 0])"
  by (simp add: kernelResponse_err enc32_def enc64_def ENOSYS_def)

text \<open>
  C2, as amended. For every op that has a reply and every non-nil error, the reply frame is
  the reply header alone: it is \<open>OutHeaderSize\<close> bytes long, its body is empty and its \<^verbatim>\<open>Len\<close>
  is the header size. Its \<^verbatim>\<open>Error\<close> is \<^verbatim>\<open>-int32(errno)\<close>, the errno truncated to 32 bits and
  negated with wrap-around, which is minus the errno for every errno below \<open>2^31\<close>; an error
  that is not a \<^verbatim>\<open>syscall.Errno\<close> is sent as \<^verbatim>\<open>-EIO\<close>.
\<close>

theorem C2_error_reply_is_header_only:
  assumes "\<not> noResponse op"
  shows "\<exists>msg. kernelResponse k fuseID op (Some err) p = Inr (Some msg)
          \<and> length msg = OutHeaderSize \<and> frameBody msg = []
          \<and> unat (frameLen msg) = OutHeaderSize
          \<and> (case err of
                Errno errno \<Rightarrow>
                  frameError msg = - ucast errno
                  \<and> (uint errno < 2 ^ 31 \<longrightarrow> sint (frameError msg) = - uint errno)
              | otherError m \<Rightarrow>
                  frameError msg = - ucast EIO \<and> sint (frameError msg) = - 5)"
proof (cases err)
  case (Errno errno)
  then show ?thesis
    by (simp add: kernelResponse_err frame_fields_hdr OutHeaderSize_def sint_neg_errno)
next
  case (otherError m)
  then show ?thesis
    by (simp add: kernelResponse_err frame_fields_hdr OutHeaderSize_def EIO_def)
qed

text \<open>C2 at a Rename op answered with \<^verbatim>\<open>ENOENT\<close> (2).\<close>

theorem C2_error_reply_is_header_only_witness:
  "\<not> noResponse (RenameOp :: (nat, nat, nat) op)
   \<and> (\<exists>msg. kernelResponse exampleKernel 9 RenameOp (Some (Errno 2)) exampleProtocol = Inr (Some msg)
          \<and> length msg = 16 \<and> frameBody msg = [] \<and> unat (frameLen msg) = 16
          \<and> frameError msg = - 2 \<and> sint (frameError msg) = - 2)"
  using C2_error_reply_is_header_only
      [where op = RenameOp and k = exampleKernel and fuseID = 9 and err = "Errno 2"
         and p = exampleProtocol]
  by (simp add: OutHeaderSize_def)

text \<open>
  C2 as stated fails where the errno does not fit an \<^verbatim>\<open>int32\<close>: a \<^verbatim>\<open>syscall.Errno\<close> is a
  \<^verbatim>\<open>uintptr\<close>. Replying \<^verbatim>\<open>Errno(0x80000001)\<close> to a Rename op gives \<^verbatim>\<open>Error\<close> 2147483647, a
  positive number, and \<^verbatim>\<open>Errno(0x100000000)\<close> gives \<^verbatim>\<open>Error\<close> 0; neither is minus the errno.
\<close>

theorem C2_error_wraps_beyond_int32:
  "kernelResponse exampleKernel 9 RenameOp (Some (Errno 0x80000001)) exampleProtocol
     = Inr (Some [16, 0, 0, 0, 255, 255, 255, 127, 9, 0, 0, 0, 0, 0, 0, 0])
   \<and> sint (frameError [16, 0, 0, 0, 255, 255, 255, 127, 9, 0, 0, 0, 0, 0, 0, 0]) = 2147483647
   \<and> sint (frameError [16, 0, 0, 0, 255, 255, 255, 127, 9, 0, 0, 0, 0, 0, 0, 0])
       \<noteq> - uint (0x80000001 :: 64 word)
   \<and> kernelResponse exampleKernel 9 RenameOp (Some (Errno 0x100000000)) exampleProtocol
     = Inr (Some [16, 0, 0, 0, 0, 0, 0, 0, 9, 0, 0, 0, 0, 0, 0, 0])
   \<and> sint (frameError [16, 0, 0, 0, 0, 0, 0, 0, 9, 0, 0, 0, 0, 0, 0, 0]) = 0
   \<and> sint (frameError [16, 0, 0, 0, 0, 0, 0, 0, 9, 0, 0, 0, 0, 0, 0, 0])
       \<noteq> - uint (0x100000000 :: 64 word)"
  by (simp add: kernelResponse_err enc32_def enc64_def frameError_def load_def
      OutHeader_Error_def dec32_def)

text \<open>
  C3. For every op that has a reply, every \<^verbatim>\<open>fuseID\<close> and every error value, the \<^verbatim>\<open>Unique\<close>
  field of the frame that \<^verbatim>\<open>kernelResponse\<close> returns is \<^verbatim>\<open>fuseID\<close>. A frame is returned in
  every case but one: with a nil error and an op that the type switch does not know the
  call panics, and there is no reply at all.
\<close>

theorem C3_reply_unique_is_fuseID:
  assumes "\<not> noResponse op"
  shows "case kernelResponse k fuseID op opErr p of
           Inl e \<Rightarrow> opErr = None \<and> \<not> recognisedOp op
         | Inr None \<Rightarrow> False
         | Inr (Some msg) \<Rightarrow> frameUnique msg = fuseID"
proof (cases "opErr = None \<and> \<not> recognisedOp op")
  case True
  then show ?thesis
    by (simp add: forOp_unrecognised kernelResponse_nil_panic)
next
  case False
  with assms have "opErr = None \<longrightarrow> recognisedOp op \<and> \<not> noResponse op" by auto
  from kernelResponse_frame [OF this, of k fuseID p] show ?thesis
    by auto
qed

text \<open>C3 at a LookUpInode op with \<^verbatim>\<open>fuseID\<close> 42 and a nil error.\<close>

theorem C3_reply_unique_is_fuseID_witness:
  "\<not> noResponse (LookUpInodeOp 5 :: (nat, nat, nat) op)
   \<and> (\<exists>msg. kernelResponse exampleKernel 42 (LookUpInodeOp 5) None exampleProtocol = Inr (Some msg)
          \<and> frameUnique msg = 42)"
  using C3_reply_unique_is_fuseID
      [where op = "LookUpInodeOp 5" and k = exampleKernel and fuseID = 42 and opErr = None
         and p = exampleProtocol]
  by (auto split: sum.splits option.splits)

text \<open>
  C4, as amended. For every op that has a reply, the \<^verbatim>\<open>Len\<close> field of the frame is the byte
  length of the whole frame converted to \<^verbatim>\<open>uint32\<close>, that is reduced modulo \<open>2^32\<close>; it is the
  byte length itself whenever the frame is shorter than \<open>2^32\<close> bytes.
\<close>

theorem C4_len_is_frame_length_mod:
  assumes "\<not> noResponse op"
  shows "case kernelResponse k fuseID op opErr p of
           Inl e \<Rightarrow> opErr = None \<and> \<not> recognisedOp op
         | Inr None \<Rightarrow> False
         | Inr (Some msg) \<Rightarrow>
             unat (frameLen msg) = length msg mod 2 ^ 32
             \<and> (length msg < 2 ^ 32 \<longrightarrow> unat (frameLen msg) = length msg)"
proof (cases "opErr = None \<and> \<not> recognisedOp op")
  case True
  then show ?thesis
    by (simp add: forOp_unrecognised kernelResponse_nil_panic)
next
  case False
  with assms have "opErr = None \<longrightarrow> recognisedOp op \<and> \<not> noResponse op" by auto
  from kernelResponse_frame [OF this, of k fuseID p] show ?thesis
    by (auto simp add: unat_of_nat)
qed

text \<open>C4 at a ReadDir op carrying three bytes: the frame has 19 bytes and \<^verbatim>\<open>Len\<close> is 19.\<close>

theorem C4_len_is_frame_length_mod_witness:
  "\<not> noResponse (ReadDirOp [1, 2, 3] :: (nat, nat, nat) op)
   \<and> (\<exists>msg. kernelResponse exampleKernel 42 (ReadDirOp [1, 2, 3]) None exampleProtocol = Inr (Some msg)
          \<and> length msg = 19 \<and> unat (frameLen msg) = 19)"
  using C4_len_is_frame_length_mod
      [where op = "ReadDirOp [1, 2, 3]" and k = exampleKernel and fuseID = 42 and opErr = None
         and p = exampleProtocol]
  by (simp add: kernelResponse_nil_body [OF Read_New(1)])

text \<open>
  C4 as stated fails where the frame reaches \<open>2^32\<close> bytes. A ReadFile op carrying
  4294967280 bytes gets a frame of 4294967296 bytes whose \<^verbatim>\<open>Len\<close> is 0.
\<close>

theorem C4_len_wraps_at_4GiB:
  "kernelResponse exampleKernel 1 (ReadFileOp (replicate 4294967280 0)) None exampleProtocol
     = Inr (Some ([0, 0, 0, 0, 0, 0, 0, 0, 1, 0, 0, 0, 0, 0, 0, 0] @ replicate 4294967280 0))
   \<and> frameLen ([0, 0, 0, 0, 0, 0, 0, 0, 1, 0, 0, 0, 0, 0, 0, 0] @ replicate 4294967280 0) = 0
   \<and> length ([0, 0, 0, 0, 0, 0, 0, 0, 1, 0, 0, 0, 0, 0, 0, 0] @ replicate 4294967280 (0::byte))
       = 4294967296"
  by (simp add: kernelResponse_nil_body [OF Read_New(2)] enc32_def enc64_def frameLen_def
      load_def OutHeader_Len_def dec32_def)

text \<open>
  C5. For every LookUpInode, GetInodeAttributes, SetInodeAttributes, MkDir, CreateSymlink
  and CreateFile op replied to with a nil error, the reply has errno zero and its body has
  the size that package fusekernel gives for the negotiated protocol:
  \<^verbatim>\<open>EntryOutSize(protocol)\<close> for the replies that carry an entry, \<^verbatim>\<open>AttrOutSize(protocol)\<close> for
  the attribute replies, and \<^verbatim>\<open>EntryOutSize(protocol)\<close> plus the size of \<^verbatim>\<open>OpenOut\<close> for
  CreateFile.
\<close>

theorem C5_body_size_follows_protocol:
  "(\<exists>msg. kernelResponse k fuseID (LookUpInodeOp entry) None p = Inr (Some msg)
       \<and> frameError msg = 0 \<and> length (frameBody msg) = EntryOutSize k p)
   \<and> (\<exists>msg. kernelResponse k fuseID (GetInodeAttributesOp inode attributes expiration) None p
              = Inr (Some msg)
       \<and> frameError msg = 0 \<and> length (frameBody msg) = AttrOutSize k p)
   \<and> (\<exists>msg. kernelResponse k fuseID (SetInodeAttributesOp inode attributes expiration) None p
              = Inr (Some msg)
       \<and> frameError msg = 0 \<and> length (frameBody msg) = AttrOutSize k p)
   \<and> (\<exists>msg. kernelResponse k fuseID (MkDirOp entry) None p = Inr (Some msg)
       \<and> frameError msg = 0 \<and> length (frameBody msg) = EntryOutSize k p)
   \<and> (\<exists>msg. kernelResponse k fuseID (CreateSymlinkOp entry) None p = Inr (Some msg)
       \<and> frameError msg = 0 \<and> length (frameBody msg) = EntryOutSize k p)
   \<and> (\<exists>msg. kernelResponse k fuseID (CreateFileOp entry handle) None p = Inr (Some msg)
       \<and> frameError msg = 0 \<and> length (frameBody msg) = EntryOutSize k p + sizeof_OpenOut)"
  by (simp add: kernelResponse_nil_body [OF Entry_New(1)] kernelResponse_nil_body [OF Entry_New(2)]
      kernelResponse_nil_body [OF Entry_New(3)] kernelResponse_nil_body [OF Attr_New(1)]
      kernelResponse_nil_body [OF Attr_New(2)] kernelResponse_nil_body [OF CreateFile_New]
      frame_fields sizeof_OpenOut_def)

text \<open>
  C6, as amended. For every Init op replied to with a nil error, the reply body is an
  \<^verbatim>\<open>InitOut\<close> whose \<^verbatim>\<open>Major\<close> and \<^verbatim>\<open>Minor\<close> are those of the op's \<^verbatim>\<open>Library\<close> protocol and whose
  \<^verbatim>\<open>MaxReadahead\<close>, \<^verbatim>\<open>Flags\<close> and \<^verbatim>\<open>MaxWrite\<close> are the op's fields of these names; the one
  remaining word of the body is zero, so the reply carries no congestion threshold.
\<close>

theorem C6_init_reply_layout:
  "kernelResponse k fuseID (internalInitOp i) None p =
     Inr (Some (enc32 40 @ enc32 0 @ enc64 fuseID
                 @ enc32 (Major (Library i)) @ enc32 (Minor (Library i))
                 @ enc32 (MaxReadahead i) @ enc32 (Flags i) @ replicate 4 0
                 @ enc32 (MaxWrite i)))"
  by (simp add: kernelResponse_nil_body [OF Init_New])

text \<open>
  C6 as stated fails on its last part. The reply to the example Init op is 40 bytes: the
  header, then 7, 23, 0x100000, 0x11, a zero word and 0x20000. The zero word, where the
  kernel ABI has \<^verbatim>\<open>max_background\<close> and \<^verbatim>\<open>congestion_threshold\<close>, is all of the body that does
  not come from the five out-fields of \<^verbatim>\<open>internalInitOp\<close>.
\<close>

theorem C6_init_reply_without_thresholds:
  "kernelResponse exampleKernel 1 (internalInitOp exampleInit) None exampleProtocol
     = Inr (Some [40, 0, 0, 0, 0, 0, 0, 0, 1, 0, 0, 0, 0, 0, 0, 0,
                  7, 0, 0, 0, 23, 0, 0, 0, 0, 0, 16, 0, 17, 0, 0, 0, 0, 0, 0, 0, 0, 0, 2, 0])
   \<and> load InitOut_Unused 4
        (frameBody [40, 0, 0, 0, 0, 0, 0, 0, 1, 0, 0, 0, 0, 0, 0, 0,
                    7, 0, 0, 0, 23, 0, 0, 0, 0, 0, 16, 0, 17, 0, 0, 0, 0, 0, 0, 0, 0, 0, 2, 0])
       = [0, 0, 0, 0]"
  by (simp add: kernelResponse_nil_body [OF Init_New] exampleInit_def enc32_def enc64_def
      enc32_0 load_def frameBody_def InitOut_Unused_def OutHeaderSize_def)

text \<open>
  C7. For every ReadFile and ReadDir op replied to with a nil error and carrying data
  \<open>d\<close>, the reply frame is the reply header followed by \<open>d\<close>, byte for byte; for every
  ReadSymlink op with target \<open>s\<close> the reply body is the bytes of \<open>s\<close> and nothing more, so it
  is as long as \<open>s\<close>.
\<close>

theorem C7_read_replies_carry_the_data:
  "kernelResponse k fuseID (ReadFileOp d) None p
     = Inr (Some (enc32 (of_nat (16 + length d)) @ enc32 0 @ enc64 fuseID @ d))
   \<and> kernelResponse k fuseID (ReadDirOp d) None p
     = Inr (Some (enc32 (of_nat (16 + length d)) @ enc32 0 @ enc64 fuseID @ d))
   \<and> frameBody (enc32 (of_nat (16 + length d)) @ enc32 0 @ enc64 fuseID @ d) = d
   \<and> kernelResponse k fuseID (ReadSymlinkOp s) None p
     = Inr (Some (enc32 (of_nat (16 + length s)) @ enc32 0 @ enc64 fuseID @ map of_char s))
   \<and> frameBody (enc32 (of_nat (16 + length s)) @ enc32 0 @ enc64 fuseID @ map of_char s)
       = map of_char s
   \<and> length (frameBody (enc32 (of_nat (16 + length s)) @ enc32 0 @ enc64 fuseID @ map of_char s))
       = length s"
proof -
  have a: "kernelResponse k fuseID (ReadFileOp d) None p
      = Inr (Some (enc32 (of_nat (16 + length d)) @ enc32 0 @ enc64 fuseID @ d))"
    by (rule kernelResponse_nil_body [OF Read_New(2)])
  have b: "kernelResponse k fuseID (ReadDirOp d) None p
      = Inr (Some (enc32 (of_nat (16 + length d)) @ enc32 0 @ enc64 fuseID @ d))"
    by (rule kernelResponse_nil_body [OF Read_New(1)])
  have "kernelResponse k fuseID (ReadSymlinkOp s) None p
      = Inr (Some (enc32 (of_nat (16 + length (map (of_char :: char \<Rightarrow> byte) s))) @ enc32 0
                    @ enc64 fuseID @ map of_char s))"
    by (rule kernelResponse_nil_body [OF Read_New(3)])
  then have c: "kernelResponse k fuseID (ReadSymlinkOp s) None p
      = Inr (Some (enc32 (of_nat (16 + length s)) @ enc32 0 @ enc64 fuseID @ map of_char s))"
    by (simp only: length_map)
  show ?thesis
    by (simp only: a b c frame_fields length_map simp_thms)
qed

text \<open>
  C8. A request whose opcode the library does not understand is an \<open>unknownOp\<close>; the server
  answers it with a frame that is the header alone, with \<^verbatim>\<open>Error\<close> equal to \<^verbatim>\<open>-ENOSYS\<close> and
  \<^verbatim>\<open>Unique\<close> equal to the request's \<^verbatim>\<open>fuseID\<close>, and hands no op to the user's file system.
\<close>

theorem C8_unknown_op_gets_ENOSYS:
  "\<exists>msg. serverHandleOp k fileSystem fuseID (unknownOp opCode inode) p = (Inr (Some msg), [])
      \<and> length msg = OutHeaderSize \<and> frameBody msg = []
      \<and> frameError msg = - ucast ENOSYS \<and> sint (frameError msg) = - 38
      \<and> frameUnique msg = fuseID"
  by (simp add: serverHandleOp_def kernelResponse_err frame_fields_hdr OutHeaderSize_def ENOSYS_def)

text \<open>
  C9. For every op value whose dynamic type has no case in the type switch, the
  \<open>unknownOp\<close> sentinel among them, \<^verbatim>\<open>kernelResponseForOp\<close> reaches the panic of the default
  branch, and so does \<^verbatim>\<open>kernelResponse\<close> with a nil error; with a non-nil error
  \<^verbatim>\<open>kernelResponse\<close> returns a frame. (For the recognised ops \<^verbatim>\<open>kernelResponseForOp\<close>
  returns: \<open>kernelResponseForOp_recognised\<close>.)
\<close>

theorem C9_unrecognised_op_panics:
  assumes "\<not> recognisedOp op"
  shows "kernelResponseForOp k op p = Inl UnknownOp
       \<and> kernelResponse k fuseID op None p = Inl UnknownOp
       \<and> (\<exists>msg. kernelResponse k fuseID op (Some err) p = Inr (Some msg))"
  using assms by (simp add: forOp_unrecognised kernelResponse_nil_panic kernelResponse_err)

text \<open>C9 at the sentinel for opcode 255.\<close>

theorem C9_unrecognised_op_panics_witness:
  "\<not> recognisedOp (unknownOp 255 1 :: (nat, nat, nat) op)
   \<and> kernelResponseForOp exampleKernel (unknownOp 255 1) exampleProtocol = Inl UnknownOp
   \<and> kernelResponse exampleKernel 8 (unknownOp 255 1) None exampleProtocol = Inl UnknownOp
   \<and> (\<exists>msg. kernelResponse exampleKernel 8 (unknownOp 255 1) (Some (Errno ENOSYS)) exampleProtocol
          = Inr (Some msg))"
  using C9_unrecognised_op_panics
      [where op = "unknownOp 255 1" and k = exampleKernel and fuseID = 8 and p = exampleProtocol
         and err = "Errno ENOSYS"]
  by simp

text \<open>
  C10. For every StatFS op replied to with a nil error, the reply body is a \<^verbatim>\<open>StatfsOut\<close>
  whose bytes are all zero: nothing is stored into the struct after \<^verbatim>\<open>Grow\<close>, and the op
  has no field a value could come from.
\<close>

theorem C10_statfs_reply_is_all_zero:
  "kernelResponse k fuseID internalStatFSOp None p
     = Inr (Some (enc32 96 @ enc32 0 @ enc64 fuseID @ replicate sizeof_StatfsOut 0))
   \<and> frameBody (enc32 96 @ enc32 0 @ enc64 fuseID @ replicate sizeof_StatfsOut 0)
       = replicate sizeof_StatfsOut 0"
  by (simp add: kernelResponse_nil_body [OF StatFS_New] frame_fields sizeof_StatfsOut_def)

end
